theory Spec2Isabelle
  imports
    Main
    "HOL-Library.Char_ord"
    "HOL-Library.List_Lexorder"
    "HOL-Library.Product_Lexorder"
begin

text \<open>
  A shallow embedding of the visibility resolver, the cursor pagination, the follow
  service, the by-author retrievals and the realtime message relay of the backend, with the
  properties proved about them. The database is a record of tables; a service takes it as an
  argument and, where it writes, returns the new one. Every \<^verbatim>\<open>throw\<close> is an \<open>Inl\<close>
  result. Values that come from outside the program (identifiers and timestamps generated
  by the database, signed URLs) are parameters. Identifiers are UUID columns: the
  database reads the text of an identifier as a UUID, rejects text that is none, and
  compares UUID values, whatever the letter case of the text.
\<close>

section \<open>Errors\<close>

text \<open>
  The exception classes of \<^verbatim>\<open>utils/errors.ts\<close>. Every \<^verbatim>\<open>throw\<close> of a service is a
  value \<open>Inl e\<close> of the result type \<open>error + 'a\<close>. \<open>NotFoundException\<close> and
  \<open>ConflictException\<close> carry their constructor argument; the empty string stands for an
  omitted argument (JavaScript treats both as falsy). \<open>JsError\<close> is a plain
  \<^verbatim>\<open>Error\<close> that is not an \<^verbatim>\<open>HttpException\<close>.
\<close>

datatype error =
    UnauthorizedException string
  | ValidationException "(string \<times> string list) list"
  | ForbiddenException
  | InvalidUserException
  | NotFoundException string
  | ConflictException string
  | JsError string

fun error_message :: "error \<Rightarrow> string" where
  "error_message (UnauthorizedException c) = ''Unauthorized. You must login to access this content.''"
| "error_message (ValidationException es) = ''Validation Error''"
| "error_message ForbiddenException = ''Forbidden. You are not allowed to perform this action''"
| "error_message InvalidUserException = ''You don't have permission to perform this action on user''"
| "error_message (NotFoundException model) =
     ''Not found.'' @ (if model \<noteq> [] then '' Couldn't find '' @ model else [])"
| "error_message (ConflictException c) = ''Conflict''"
| "error_message (JsError m) = m"

fun http_code :: "error \<Rightarrow> nat" where
  "http_code (UnauthorizedException c) = 401"
| "http_code (ValidationException es) = 400"
| "http_code ForbiddenException = 403"
| "http_code InvalidUserException = 404"
| "http_code (NotFoundException model) = 404"
| "http_code (ConflictException c) = 409"
| "http_code (JsError m) = 500"

text \<open>
  Two errors of the database client, both plain errors to the services (status 500): an
  identifier whose text is not a UUID, and a row that refers to a missing row.
\<close>

definition invalid_uuid :: error where
  "invalid_uuid = JsError ''Inconsistent column data: Error creating UUID''"

definition foreign_key_failed :: error where
  "foreign_key_failed = JsError ''Foreign key constraint failed''"

section \<open>Input validation\<close>

text \<open>
  The DTO classes carry class-validator decorators and the services call
  \<^verbatim>\<open>validate(data, ...)\<close>, which returns one entry per property that violates a
  constraint, the properties in the order the class declares them. An entry is modelled as
  the property name with the names of the violated constraints (in JavaScript an object
  keyed by these names, filled from the last decorator written to the first). All values
  are strings here, so \<^verbatim>\<open>@IsString()\<close> always holds.

  \<open>isUUID\<close> is class-validator's check without a version argument: five groups of
  8, 4, 4, 4 and 12 hexadecimal digits separated by hyphens. The theorems below use it only
  through hypotheses of the form \<open>isUUID x\<close>; the concrete identifiers of the examples
  are version-4 UUIDs.
\<close>

definition isNotEmpty :: "string \<Rightarrow> bool" where
  "isNotEmpty v = (v \<noteq> [])"

definition isHexDigit :: "char \<Rightarrow> bool" where
  "isHexDigit c = (c \<in> set ''0123456789abcdefABCDEF'')"

definition isUUID :: "string \<Rightarrow> bool" where
  "isUUID s =
     (length s = 36 \<and>
      list_all (\<lambda>(c, i). if i \<in> {8, 13, 18, 23} then c = CHR ''-'' else isHexDigit c)
        (zip s [0 ..< 36]))"

definition maxLength :: "nat \<Rightarrow> string \<Rightarrow> bool" where
  "maxLength n v = (length v \<le> n)"

definition arrayMaxSize :: "nat \<Rightarrow> 'a list \<Rightarrow> bool" where
  "arrayMaxSize n xs = (length xs \<le> n)"

definition violations :: "string \<Rightarrow> (string \<times> bool) list \<Rightarrow> (string \<times> string list) list" where
  "violations property checks =
     (let failed = map fst (filter (\<lambda>(c, ok). \<not> ok) checks)
      in if failed = [] then [] else [(property, failed)])"

text \<open>
  A property decorated with \<^verbatim>\<open>@IsNotEmpty()\<close>, \<^verbatim>\<open>@IsString()\<close> and, last,
  \<^verbatim>\<open>@IsUUID()\<close>, as every identifier of the DTO classes below is.
\<close>

definition uuid_property :: "string \<Rightarrow> string \<Rightarrow> (string \<times> string list) list" where
  "uuid_property property v =
     violations property [(''isUuid'', isUUID v), (''isString'', True), (''isNotEmpty'', isNotEmpty v)]"

definition validate_CreateFollowDTO :: "string \<Rightarrow> string \<Rightarrow> (string \<times> string list) list" where
  "validate_CreateFollowDTO followerId followedId =
     uuid_property ''followedId'' followedId @ uuid_property ''followerId'' followerId"

definition validate_DeleteFollowDTO :: "string \<Rightarrow> string \<Rightarrow> (string \<times> string list) list" where
  "validate_DeleteFollowDTO follower follow =
     uuid_property ''follower'' follower @ uuid_property ''follow'' follow"

definition validate_PostsByAuthorDTO :: "string \<Rightarrow> string \<Rightarrow> (string \<times> string list) list" where
  "validate_PostsByAuthorDTO userId authorId =
     uuid_property ''userId'' userId @ uuid_property ''authorId'' authorId"

definition validate_GetCommentDTO :: "string \<Rightarrow> string \<Rightarrow> (string \<times> string list) list" where
  "validate_GetCommentDTO userId postId =
     uuid_property ''userId'' userId @ uuid_property ''postId'' postId"

definition validate_GetCommentsFromUserDTO :: "string \<Rightarrow> string \<Rightarrow> (string \<times> string list) list" where
  "validate_GetCommentsFromUserDTO userId authorId =
     uuid_property ''userId'' userId @ uuid_property ''authorId'' authorId"

definition validate_GetReactionsFromUserDTO :: "string \<Rightarrow> string \<Rightarrow> (string \<times> string list) list" where
  "validate_GetReactionsFromUserDTO userId authorId =
     uuid_property ''userId'' userId @ uuid_property ''authorId'' authorId"

definition validate_MessageDTO :: "string \<Rightarrow> string \<Rightarrow> string \<Rightarrow> (string \<times> string list) list" where
  "validate_MessageDTO sender receiver text =
     uuid_property ''senderId'' sender @ uuid_property ''receiverId'' receiver
     @ violations ''content'' [(''isString'', True), (''isNotEmpty'', isNotEmpty text)]"

section \<open>UUID columns\<close>

text \<open>
  Every identifier column is of type \<^verbatim>\<open>UUID\<close> (see the \<^verbatim>\<open>Reaction\<close> migration). The
  database client reads the text given for such a column as a UUID and fails on text that
  is none; a stored identifier comes back in its canonical text, lower case with hyphens.
  \<open>read_uuid\<close> is that reading: the hyphenated form and the form of 32 digits without
  hyphens, in any letter case. (Spellings with braces or a URN prefix, which some versions
  of the client also read, are taken as rejected; no property below is about them.) The
  tables below hold identifiers in canonical text, so that a lookup compares the canonical
  text of its argument with the stored text.
\<close>

definition lower_hex :: "char \<Rightarrow> char" where
  "lower_hex c =
     (if c = CHR ''A'' then CHR ''a'' else if c = CHR ''B'' then CHR ''b''
      else if c = CHR ''C'' then CHR ''c'' else if c = CHR ''D'' then CHR ''d''
      else if c = CHR ''E'' then CHR ''e'' else if c = CHR ''F'' then CHR ''f''
      else c)"

definition canonical :: "string \<Rightarrow> string" where
  "canonical s = map lower_hex s"

definition hyphenate :: "string \<Rightarrow> string" where
  "hyphenate s =
     take 8 s @ ''-'' @ take 4 (drop 8 s) @ ''-'' @ take 4 (drop 12 s) @ ''-''
     @ take 4 (drop 16 s) @ ''-'' @ drop 20 s"

definition read_uuid :: "string \<Rightarrow> string option" where
  "read_uuid s =
     (if isUUID s then Some (canonical s)
      else if length s = 32 \<and> list_all isHexDigit s then Some (hyphenate (canonical s))
      else None)"

section \<open>Stored data\<close>

text \<open>
  The tables the modelled code reads and writes, each a list of rows in storage order.
  Record fields are global names in Isabelle, so the \<^verbatim>\<open>id\<close> and \<^verbatim>\<open>createdAt\<close>
  columns carry the table's name as a prefix where two tables share them. Timestamps are
  integers (milliseconds). A row of the \<^verbatim>\<open>Post\<close> table has the fields of
  \<^verbatim>\<open>CommentDTO\<close> (a \<^verbatim>\<open>PostDTO\<close> with \<^verbatim>\<open>parentPostId\<close>), and a row of the
  \<^verbatim>\<open>Message\<close> table those of \<^verbatim>\<open>MessageDTO\<close> with an identifier and a timestamp.
\<close>

datatype Visibility = PUBLIC | PRIVATE | HIDDEN

datatype ReactionAction = LIKE | RETWEET

record User =
  user_id :: string
  username :: string
  name :: "string option"
  visibility :: Visibility
  profilePicture :: "string option"

record Follow =
  follow_id :: string
  followerId :: string
  followedId :: string
  follow_createdAt :: int

record Reaction =
  reaction_id :: string
  reaction_authorId :: string
  reaction_postId :: string
  action :: ReactionAction
  reaction_createdAt :: int

record PostDTO =
  post_id :: string
  authorId :: string
  content :: string
  images :: "string list"
  createdAt :: int

record CommentDTO = PostDTO +
  parentPostId :: "string option"

record ExtendedPostDTO = PostDTO +
  author :: "User option"
  qtyComments :: nat
  qtyLikes :: nat
  qtyRetweets :: nat
  reactions :: "Reaction list"

record MessageDTO =
  senderId :: string
  receiverId :: string
  message_content :: string

record Message = MessageDTO +
  message_id :: string
  message_createdAt :: int

record database =
  users :: "User list"
  follows :: "Follow list"
  posts :: "CommentDTO list"
  reaction_rows :: "Reaction list"
  messages :: "Message list"

text \<open>Values the database generates for a new row: its identifier and its timestamp.\<close>

record generated =
  newId :: string
  now :: int

subsection \<open>Prisma lookups\<close>

text \<open>
  \<^verbatim>\<open>findUnique({where: {id}})\<close>: rejected when the text is no UUID, otherwise the row
  with that UUID, if there is one. \<open>follow_findFirst\<close> is
  \<^verbatim>\<open>follow.findFirst({where: {followerId, followedId}})\<close>, which three repositories call.
\<close>

definition findUnique :: "('a \<Rightarrow> string) \<Rightarrow> 'a list \<Rightarrow> string \<Rightarrow> error + 'a option" where
  "findUnique ident rows k =
     (case read_uuid k of
        None \<Rightarrow> Inl invalid_uuid
      | Some u \<Rightarrow> Inr (find (\<lambda>r. ident r = u) rows))"

definition follow_findFirst :: "database \<Rightarrow> string \<Rightarrow> string \<Rightarrow> error + Follow option" where
  "follow_findFirst db follower followed =
     (case read_uuid follower of
        None \<Rightarrow> Inl invalid_uuid
      | Some a \<Rightarrow>
          (case read_uuid followed of
             None \<Rightarrow> Inl invalid_uuid
           | Some b \<Rightarrow> Inr (find (\<lambda>f. followerId f = a \<and> followedId f = b) (follows db))))"

section \<open>User repository: the visibility resolver\<close>

text \<open>
  \<^verbatim>\<open>UserRepositoryImpl\<close> (\<^verbatim>\<open>src/domains/user/repository/user.repository.impl.ts\<close>):
  \<open>isUserPublicOrFollowed\<close>, and the two lookups the user service calls,
  \<^verbatim>\<open>isUserFollowed\<close> and \<^verbatim>\<open>checkIfUserExists\<close>, here with the prefix \<open>repo_\<close>.
  The function has no \<^verbatim>\<open>throw\<close> of its own; an \<open>Inl\<close> result is the rejection of a
  lookup by the database client.
\<close>

definition isUserPublicOrFollowed :: "database \<Rightarrow> string \<Rightarrow> string \<Rightarrow> error + bool" where
  "isUserPublicOrFollowed db followerID followedID =
     (case findUnique user_id (users db) followedID of
        Inl e \<Rightarrow> Inl e
      | Inr None \<Rightarrow> Inr False
      | Inr (Some author_row) \<Rightarrow>
          if visibility author_row = PUBLIC then Inr True
          else if visibility author_row = HIDDEN then Inr False
          else (case follow_findFirst db followerID followedID of
                  Inl e \<Rightarrow> Inl e
                | Inr None \<Rightarrow> Inr False
                | Inr (Some follow) \<Rightarrow> Inr True))"

definition repo_isUserFollowed :: "database \<Rightarrow> string \<Rightarrow> string \<Rightarrow> error + bool" where
  "repo_isUserFollowed db follower followed =
     (case findUnique user_id (users db) followed of
        Inl e \<Rightarrow> Inl e
      | Inr None \<Rightarrow> Inr False
      | Inr (Some otherUser) \<Rightarrow>
          (case follow_findFirst db follower followed of
             Inl e \<Rightarrow> Inl e
           | Inr None \<Rightarrow> Inr False
           | Inr (Some follow) \<Rightarrow> Inr True))"

definition repo_checkIfUserExists :: "database \<Rightarrow> string \<Rightarrow> error + bool" where
  "repo_checkIfUserExists db userId =
     (case findUnique user_id (users db) userId of
        Inl e \<Rightarrow> Inl e
      | Inr None \<Rightarrow> Inr False
      | Inr (Some user) \<Rightarrow> Inr True)"

section \<open>Follower repository and service\<close>

text \<open>
  \<^verbatim>\<open>FollowerRepositoryImpl\<close> (names with the prefix \<open>follower_\<close>) and
  \<^verbatim>\<open>FollowerServiceImpl\<close> (\<open>createFollower\<close>, \<open>deleteFollower\<close>,
  \<open>getAllFollows\<close>). A new row stores the UUIDs its two identifiers were read as.
\<close>

definition follower_userExists :: "database \<Rightarrow> string \<Rightarrow> error + bool" where
  "follower_userExists db userId =
     (case findUnique user_id (users db) userId of
        Inl e \<Rightarrow> Inl e
      | Inr None \<Rightarrow> Inr False
      | Inr (Some result) \<Rightarrow> Inr True)"

definition follower_getById :: "database \<Rightarrow> string \<Rightarrow> string \<Rightarrow> error + Follow option" where
  "follower_getById db follower followed = follow_findFirst db follower followed"

definition follower_create ::
    "database \<Rightarrow> generated \<Rightarrow> string \<Rightarrow> string \<Rightarrow> error + Follow \<times> database" where
  "follower_create db gen follower followed =
     (case read_uuid follower of
        None \<Rightarrow> Inl invalid_uuid
      | Some a \<Rightarrow>
          (case read_uuid followed of
             None \<Rightarrow> Inl invalid_uuid
           | Some b \<Rightarrow>
               (let follow = \<lparr>follow_id = newId gen, followerId = a, followedId = b,
                               follow_createdAt = now gen\<rparr>
                in Inr (follow, db\<lparr>follows := follows db @ [follow]\<rparr>))))"

text \<open>Prisma's \<^verbatim>\<open>delete\<close> rejects when no row has the given identifier.\<close>

definition follower_delete :: "database \<Rightarrow> string \<Rightarrow> error + database" where
  "follower_delete db followId =
     (case findUnique follow_id (follows db) followId of
        Inl e \<Rightarrow> Inl e
      | Inr None \<Rightarrow> Inl (JsError ''Record to delete does not exist.'')
      | Inr (Some row) \<Rightarrow>
          Inr (db\<lparr>follows := filter (\<lambda>f. follow_id f \<noteq> follow_id row) (follows db)\<rparr>))"


text \<open>
  The services return their result together with the database after the call, so that a
  rejected call leaving the tables as they were is a statement about the second component.
  The self-follow guard of \<open>createFollower\<close> compares the two texts
  (\<^verbatim>\<open>followerId === followedId\<close>).
\<close>

definition createFollower ::
    "database \<Rightarrow> generated \<Rightarrow> string \<Rightarrow> string \<Rightarrow> (error + Follow) \<times> database" where
  "createFollower db gen follower followed =
     (let errors = validate_CreateFollowDTO follower followed in
      if errors \<noteq> [] then (Inl (ValidationException errors), db)
      else if follower = followed then (Inl (ConflictException ''cannot follow itself''), db)
      else
        (case follower_userExists db followed of
           Inl e \<Rightarrow> (Inl e, db)
         | Inr False \<Rightarrow> (Inl (NotFoundException ''followed does not exists''), db)
         | Inr True \<Rightarrow>
             (case follower_getById db follower followed of
                Inl e \<Rightarrow> (Inl e, db)
              | Inr (Some oldFollow) \<Rightarrow> (Inl (ConflictException ''follow already exist''), db)
              | Inr None \<Rightarrow>
                  (case follower_create db gen follower followed of
                     Inl e \<Rightarrow> (Inl e, db)
                   | Inr (follow, db') \<Rightarrow> (Inr follow, db')))))"

definition deleteFollower :: "database \<Rightarrow> string \<Rightarrow> string \<Rightarrow> (error + unit) \<times> database" where
  "deleteFollower db follower followed =
     (let errors = validate_DeleteFollowDTO follower followed in
      if errors \<noteq> [] then (Inl (ValidationException errors), db)
      else
        (case follower_getById db follower followed of
           Inl e \<Rightarrow> (Inl e, db)
         | Inr None \<Rightarrow> (Inl (NotFoundException ''follow''), db)
         | Inr (Some follow) \<Rightarrow>
             (case follower_delete db (follow_id follow) of
                Inl e \<Rightarrow> (Inl e, db)
              | Inr db' \<Rightarrow> (Inr (), db'))))"


section \<open>Pagination\<close>

text \<open>
  \<^verbatim>\<open>CursorPagination\<close>: every field is optional. An absent field, and a \<^verbatim>\<open>limit\<close> that
  is \<^verbatim>\<open>NaN\<close> (the controller passes \<^verbatim>\<open>Number(limit)\<close>), are \<open>None\<close>. The repositories
  test the fields for JavaScript truthiness, under which the empty string and \<open>0\<close> count
  as absent, and with \<^verbatim>\<open>??\<close>, which only replaces an absent value.
\<close>

record CursorPagination =
  limit :: "int option"
  before :: "string option"
  after :: "string option"

definition truthy_string :: "string option \<Rightarrow> bool" where
  "truthy_string v = (case v of None \<Rightarrow> False | Some s \<Rightarrow> s \<noteq> [])"

definition truthy_number :: "int option \<Rightarrow> bool" where
  "truthy_number v = (case v of None \<Rightarrow> False | Some n \<Rightarrow> n \<noteq> 0)"

definition nullish :: "'a option \<Rightarrow> 'a option \<Rightarrow> 'a option" where
  "nullish a b = (case a of None \<Rightarrow> b | Some x \<Rightarrow> Some x)"

text \<open>The three arguments the repositories compute for \<^verbatim>\<open>findMany\<close>.\<close>

definition cursor_of :: "CursorPagination \<Rightarrow> string option" where
  "cursor_of options =
     (if truthy_string (after options) then after options
      else if truthy_string (before options) then before options
      else None)"

definition skip_of :: "CursorPagination \<Rightarrow> nat option" where
  "skip_of options =
     (if truthy_string (nullish (after options) (before options)) then Some 1 else None)"

definition take_of :: "CursorPagination \<Rightarrow> int option" where
  "take_of options =
     (if truthy_number (limit options)
      then (if truthy_string (before options) then map_option uminus (limit options)
            else limit options)
      else None)"

text \<open>
  Prisma's \<^verbatim>\<open>findMany\<close> window, as the Prisma Client reference describes it, over the
  rows that match the \<^verbatim>\<open>where\<close> filter, already in \<^verbatim>\<open>orderBy\<close> order; \<open>key\<close> is the
  sort key of that order. A negative \<^verbatim>\<open>take\<close> scans the order backwards and returns
  the rows found in the original order. A cursor keeps the rows at or after the cursor's
  row in the direction of the scan; the cursor's row is looked up in the whole table, a
  cursor whose text is no UUID is rejected, and a cursor that names no row gives no rows.
  \<^verbatim>\<open>skip\<close> then drops rows and \<^verbatim>\<open>take\<close> bounds their number. In \<open>window_from\<close> the
  cursor is \<open>None\<close> when none was given and otherwise the result of its lookup.
\<close>

definition window_from ::
    "('a \<Rightarrow> 'k::linorder) \<Rightarrow> 'a list \<Rightarrow> 'a option option \<Rightarrow> nat option \<Rightarrow> int option \<Rightarrow> 'a list" where
  "window_from key ordered cursor_row skip take_arg =
     (let backwards = (case take_arg of None \<Rightarrow> False | Some n \<Rightarrow> n < 0);
          scan = (if backwards then rev ordered else ordered);
          from_cursor =
            (case cursor_row of
               None \<Rightarrow> scan
             | Some None \<Rightarrow> []
             | Some (Some row) \<Rightarrow>
                 filter (\<lambda>r. if backwards then key r \<le> key row else key row \<le> key r) scan);
          skipped = drop (case skip of None \<Rightarrow> 0 | Some k \<Rightarrow> k) from_cursor;
          taken = (case take_arg of None \<Rightarrow> skipped | Some n \<Rightarrow> take (nat \<bar>n\<bar>) skipped)
      in if backwards then rev taken else taken)"

definition findMany_window ::
    "('a \<Rightarrow> 'k::linorder) \<Rightarrow> ('a \<Rightarrow> string) \<Rightarrow> 'a list \<Rightarrow> 'a list \<Rightarrow>
     string option \<Rightarrow> nat option \<Rightarrow> int option \<Rightarrow> error + 'a list" where
  "findMany_window key ident table_rows ordered cursor skip take_arg =
     (case cursor of
        None \<Rightarrow> Inr (window_from key ordered None skip take_arg)
      | Some c \<Rightarrow>
          (case findUnique ident table_rows c of
             Inl e \<Rightarrow> Inl e
           | Inr found \<Rightarrow> Inr (window_from key ordered (Some found) skip take_arg)))"

section \<open>Post repository\<close>

text \<open>
  \<^verbatim>\<open>PostRepositoryImpl\<close>: \<open>getAllByDatePaginated\<close>, \<^verbatim>\<open>getByAuthorId\<close> and
  \<^verbatim>\<open>create\<close> (the last two with the prefix \<open>post_\<close>).
\<close>

text \<open>\<^verbatim>\<open>orderBy: [{createdAt: 'desc'}, {id: 'asc'}]\<close> as a sort key.\<close>

definition date_desc_id_asc :: "'a CommentDTO_scheme \<Rightarrow> int \<times> string" where
  "date_desc_id_asc p = (- createdAt p, post_id p)"

text \<open>
  The first query of \<open>getAllByDatePaginated\<close>: the identifiers of the users the viewer
  follows (\<^verbatim>\<open>follow.findMany({where: {followerId: userId}})\<close>).
\<close>

definition followedIds_of :: "database \<Rightarrow> string \<Rightarrow> error + string list" where
  "followedIds_of db userId =
     (case read_uuid userId of
        None \<Rightarrow> Inl invalid_uuid
      | Some v \<Rightarrow> Inr (map followedId (filter (\<lambda>f. followerId f = v) (follows db))))"

text \<open>
  The \<^verbatim>\<open>where\<close> clause of the feed: the author is PUBLIC, or the author is PRIVATE and
  among the users the viewer follows. The author of a post is the user row its
  \<^verbatim>\<open>authorId\<close> refers to.
\<close>

definition author_of :: "database \<Rightarrow> 'a PostDTO_scheme \<Rightarrow> User option" where
  "author_of db p = find (\<lambda>u. user_id u = authorId p) (users db)"

definition feed_filter :: "database \<Rightarrow> string list \<Rightarrow> CommentDTO \<Rightarrow> bool" where
  "feed_filter db followedIds p =
     (case author_of db p of
        None \<Rightarrow> False
      | Some a \<Rightarrow> visibility a = PUBLIC
                 \<or> (visibility a = PRIVATE \<and> user_id a \<in> set followedIds))"

definition to_ExtendedPostDTO :: "database \<Rightarrow> CommentDTO \<Rightarrow> ExtendedPostDTO" where
  "to_ExtendedPostDTO db p =
     (let post_reactions = filter (\<lambda>r. reaction_postId r = post_id p) (reaction_rows db);
          post_comments = filter (\<lambda>c. parentPostId c = Some (post_id p)) (posts db) in
      \<lparr>post_id = post_id p, authorId = authorId p, content = content p, images = images p,
       createdAt = createdAt p,
       author = author_of db p,
       qtyComments = length post_comments,
       qtyLikes = length (filter (\<lambda>r. action r = LIKE) post_reactions),
       qtyRetweets = length (filter (\<lambda>r. action r = RETWEET) post_reactions),
       reactions = post_reactions\<rparr>)"

definition getAllByDatePaginated ::
    "database \<Rightarrow> string \<Rightarrow> CursorPagination \<Rightarrow> error + ExtendedPostDTO list" where
  "getAllByDatePaginated db userId options =
     (case followedIds_of db userId of
        Inl e \<Rightarrow> Inl e
      | Inr followedIds \<Rightarrow>
          (case findMany_window date_desc_id_asc post_id (posts db)
                  (sort_key date_desc_id_asc (filter (feed_filter db followedIds) (posts db)))
                  (cursor_of options) (skip_of options) (take_of options) of
             Inl e \<Rightarrow> Inl e
           | Inr found \<Rightarrow> Inr (map (to_ExtendedPostDTO db) found)))"

definition post_getByAuthorId :: "database \<Rightarrow> string \<Rightarrow> error + ExtendedPostDTO list" where
  "post_getByAuthorId db author_id =
     (case read_uuid author_id of
        None \<Rightarrow> Inl invalid_uuid
      | Some a \<Rightarrow> Inr (map (to_ExtendedPostDTO db) (filter (\<lambda>p. authorId p = a) (posts db))))"

text \<open>
  \<^verbatim>\<open>create\<close>: the author column refers to the \<^verbatim>\<open>User\<close> table, so the database
  rejects a post whose author has no user row.
\<close>

definition post_create ::
    "database \<Rightarrow> generated \<Rightarrow> string \<Rightarrow> string \<Rightarrow> string list option \<Rightarrow> error + PostDTO \<times> database" where
  "post_create db gen userId text imgs =
     (case read_uuid userId of
        None \<Rightarrow> Inl invalid_uuid
      | Some a \<Rightarrow>
          (case find (\<lambda>u. user_id u = a) (users db) of
             None \<Rightarrow> Inl foreign_key_failed
           | Some u \<Rightarrow>
               (let row = \<lparr>post_id = newId gen, authorId = a, content = text,
                            images = (case imgs of None \<Rightarrow> [] | Some xs \<Rightarrow> xs),
                            createdAt = now gen, parentPostId = None\<rparr>
                in Inr (PostDTO.truncate row, db\<lparr>posts := posts db @ [row]\<rparr>))))"

text \<open>
  Position in the feed order: \<open>r\<close> comes strictly after \<open>x\<close> when it is older, or
  as old with a greater identifier.
\<close>

definition strictly_after :: "'a CommentDTO_scheme \<Rightarrow> 'b PostDTO_scheme \<Rightarrow> bool" where
  "strictly_after x r =
     (createdAt r < createdAt x \<or> (createdAt r = createdAt x \<and> post_id x < post_id r))"

section \<open>Signed URLs\<close>

text \<open>\<^verbatim>\<open>generatePreSignedUrl\<close> and \<^verbatim>\<open>generatePreSignedUrls\<close> of the S3 helper.\<close>

text \<open>
  The object store is outside the program: \<open>getSignedUrl\<close> is the URL it returns for a
  key and \<open>randomUUID\<close> the random prefix drawn while signing that key.
\<close>

record PreSignedUrl =
  signedUrl :: string
  key :: string

record aws =
  getSignedUrl :: "string \<Rightarrow> string"
  randomUUID :: "string \<Rightarrow> string"

text \<open>\<^verbatim>\<open>image.split('.').pop()\<close>: the part after the last dot, or the whole name.\<close>

definition file_ext :: "string \<Rightarrow> string" where
  "file_ext img = rev (takeWhile (\<lambda>c. c \<noteq> CHR ''.'') (rev img))"

definition generatePreSignedUrl :: "aws \<Rightarrow> string \<Rightarrow> error + PreSignedUrl" where
  "generatePreSignedUrl s3 img =
     (if file_ext img = [] then Inl (JsError (''Invalid file name: '' @ img))
      else Inr \<lparr>signedUrl = getSignedUrl s3 img, key = randomUUID s3 img @ ''_'' @ img\<rparr>)"

fun generatePreSignedUrls :: "aws \<Rightarrow> string list \<Rightarrow> error + PreSignedUrl list" where
  "generatePreSignedUrls s3 [] = Inr []"
| "generatePreSignedUrls s3 (img # rest) =
     (case generatePreSignedUrl s3 img of
        Inl e \<Rightarrow> Inl e
      | Inr preSignedUrl \<Rightarrow>
          (case generatePreSignedUrls s3 rest of
             Inl e \<Rightarrow> Inl e
           | Inr preSignedUrls \<Rightarrow> Inr (preSignedUrl # preSignedUrls)))"

section \<open>Post service\<close>

text \<open>
  \<^verbatim>\<open>PostServiceImpl\<close> (\<^verbatim>\<open>src/domains/post/service/post.service.impl.ts\<close>) and the
  classes \<^verbatim>\<open>CreatePostDTO\<close> and \<^verbatim>\<open>PostContentDTO\<close> of
  \<^verbatim>\<open>src/domains/post/dto/index.ts\<close>.
\<close>

text \<open>
  \<open>createPost\<close> builds a \<^verbatim>\<open>CreatePostDTO\<close> and never passes it to \<^verbatim>\<open>validate\<close>;
  \<open>validate_CreatePostDTO\<close> records what the decorators of the class declare.
\<close>

definition validate_CreatePostDTO ::
    "string \<Rightarrow> string \<Rightarrow> string list option \<Rightarrow> (string \<times> string list) list" where
  "validate_CreatePostDTO userId text imgs =
     uuid_property ''userId'' userId
     @ violations ''content''
         [(''maxLength'', maxLength 240 text), (''isNotEmpty'', isNotEmpty text), (''isString'', True)]
     @ (case imgs of
          None \<Rightarrow> []
        | Some xs \<Rightarrow> violations ''images''
            [(''maxLength'', list_all (maxLength 100) xs), (''arrayMaxSize'', arrayMaxSize 4 xs)])"

definition createPost ::
    "database \<Rightarrow> generated \<Rightarrow> aws \<Rightarrow> string \<Rightarrow> string \<Rightarrow> string list option \<Rightarrow>
     (error + PostDTO) \<times> database" where
  "createPost db gen s3 userId text imgs =
     (case imgs of
        Some (img # rest) \<Rightarrow>
          (case generatePreSignedUrls s3 (img # rest) of
             Inl e \<Rightarrow> (Inl e, db)
           | Inr urls \<Rightarrow>
               (case post_create db gen userId text (Some (map signedUrl urls)) of
                  Inl e \<Rightarrow> (Inl e, db)
                | Inr (post, db') \<Rightarrow> (Inr post, db')))
      | _ \<Rightarrow>
          (case post_create db gen userId text imgs of
             Inl e \<Rightarrow> (Inl e, db)
           | Inr (post, db') \<Rightarrow> (Inr post, db')))"

subsection \<open>The route that creates a post\<close>

text \<open>
  \<^verbatim>\<open>postRouter.post('/', BodyValidation(PostContentDTO), ...)\<close> of
  \<^verbatim>\<open>src/domains/post/controller/post.controller.ts\<close> is the only caller of
  \<open>createPost\<close>. The request body is a \<^verbatim>\<open>PostContentDTO\<close>, whose fields carry the
  prefix \<open>body_\<close> here.
\<close>

record PostContentDTO =
  body_content :: string
  body_images :: "string list option"

definition validate_PostContentDTO :: "PostContentDTO \<Rightarrow> (string \<times> string list) list" where
  "validate_PostContentDTO body =
     violations ''content''
       [(''maxLength'', maxLength 240 (body_content body)),
        (''isNotEmpty'', isNotEmpty (body_content body)), (''isString'', True)]
     @ (case body_images body of
          None \<Rightarrow> []
        | Some xs \<Rightarrow> violations ''images''
            [(''maxLength'', list_all (maxLength 100) xs), (''arrayMaxSize'', arrayMaxSize 4 xs)])"

text \<open>
  Modelled from the spec: the \<^verbatim>\<open>BodyValidation\<close> middleware, whose code is not
  among the sources (only its uses in the routes are). The spec has input validation fail
  with a validation error listing every violated field when any check fails, all fields
  being checked and all violations reported together, before anything else is done; the
  routes document that rejection as status 400.
\<close>

definition BodyValidation :: "('b \<Rightarrow> (string \<times> string list) list) \<Rightarrow> 'b \<Rightarrow> error + 'b" where
  "BodyValidation validate body =
     (let errors = validate body in
      if errors \<noteq> [] then Inl (ValidationException errors) else Inr body)"

definition post_route ::
    "database \<Rightarrow> generated \<Rightarrow> aws \<Rightarrow> string \<Rightarrow> PostContentDTO \<Rightarrow> (error + PostDTO) \<times> database" where
  "post_route db gen s3 userId body =
     (case BodyValidation validate_PostContentDTO body of
        Inl e \<Rightarrow> (Inl e, db)
      | Inr data \<Rightarrow> createPost db gen s3 userId (body_content data) (body_images data))"

subsection \<open>Reading posts\<close>

text \<open>The body of the loops of \<open>getLatestPosts\<close> and \<open>getPostsByAuthor\<close>, for one post.\<close>

definition sign_images :: "aws \<Rightarrow> ExtendedPostDTO \<Rightarrow> error + ExtendedPostDTO" where
  "sign_images s3 post =
     (if images post \<noteq> [] then
        (case generatePreSignedUrls s3 (images post) of
           Inl e \<Rightarrow> Inl e
         | Inr preSignedUrls \<Rightarrow> Inr (post\<lparr>images := map signedUrl preSignedUrls\<rparr>))
      else Inr post)"

definition sign_profilePicture :: "aws \<Rightarrow> User \<Rightarrow> error + User" where
  "sign_profilePicture s3 u =
     (if truthy_string (profilePicture u) then
        (case generatePreSignedUrl s3 (case profilePicture u of None \<Rightarrow> [] | Some picture \<Rightarrow> picture) of
           Inl e \<Rightarrow> Inl e
         | Inr preSignedUrl \<Rightarrow> Inr (u\<lparr>profilePicture := Some (signedUrl preSignedUrl)\<rparr>))
      else Inr u)"


definition enrich_by_author :: "aws \<Rightarrow> ExtendedPostDTO \<Rightarrow> error + ExtendedPostDTO" where
  "enrich_by_author s3 post =
     (case sign_images s3 post of
        Inl e \<Rightarrow> Inl e
      | Inr post1 \<Rightarrow>
          (case author post1 of
             None \<Rightarrow> Inr post1
           | Some u \<Rightarrow>
               (case sign_profilePicture s3 u of
                  Inl e \<Rightarrow> Inl e
                | Inr u' \<Rightarrow> Inr (post1\<lparr>author := Some u'\<rparr>))))"

fun for_each :: "('a \<Rightarrow> error + 'a) \<Rightarrow> 'a list \<Rightarrow> error + 'a list" where
  "for_each body [] = Inr []"
| "for_each body (x # xs) =
     (case body x of
        Inl e \<Rightarrow> Inl e
      | Inr y \<Rightarrow> (case for_each body xs of Inl e \<Rightarrow> Inl e | Inr ys \<Rightarrow> Inr (y # ys)))"


section \<open>Services that record their repository calls\<close>

text \<open>
  Some properties are about the order of the repository calls a service makes (the
  permission check comes before the fetch). These services return the list of the calls
  made, in order, with their result.
\<close>

datatype repo_call =
    Call_isUserPublicOrFollowed string string
  | Call_post_getByAuthorId string
  | Call_comment_getById string
  | Call_comment_getAllCommentsFromUser string
  | Call_comment_getAllCommentsFromPost string
  | Call_reaction_getAllReactionsFromUser string

definition getPostsByAuthor ::
    "database \<Rightarrow> aws \<Rightarrow> string \<Rightarrow> string \<Rightarrow> repo_call list \<times> (error + ExtendedPostDTO list)" where
  "getPostsByAuthor db s3 userId author_id =
     (let errors = validate_PostsByAuthorDTO userId author_id in
      if errors \<noteq> [] then ([], Inl (ValidationException errors))
      else
        let calls1 = [Call_isUserPublicOrFollowed userId author_id] in
        case isUserPublicOrFollowed db userId author_id of
          Inl e \<Rightarrow> (calls1, Inl e)
        | Inr False \<Rightarrow> (calls1, Inl InvalidUserException)
        | Inr True \<Rightarrow>
            let calls2 = calls1 @ [Call_post_getByAuthorId author_id] in
            (case post_getByAuthorId db author_id of
               Inl e \<Rightarrow> (calls2, Inl e)
             | Inr found \<Rightarrow>
                 if found = [] then (calls2, Inl (NotFoundException ''authors''))
                 else (calls2, for_each (enrich_by_author s3) found)))"

subsection \<open>Comments\<close>

text \<open>
  \<^verbatim>\<open>CommentRepositoryImpl\<close> (names with the prefix \<open>comment_\<close>) and
  \<^verbatim>\<open>CommentServiceImpl\<close>, both under \<^verbatim>\<open>src/domains/comment\<close>.
\<close>

definition comment_getById :: "database \<Rightarrow> string \<Rightarrow> error + CommentDTO option" where
  "comment_getById db postId = findUnique post_id (posts db) postId"

definition comment_getAllCommentsFromUser :: "database \<Rightarrow> string \<Rightarrow> error + CommentDTO list" where
  "comment_getAllCommentsFromUser db author_id =
     (case read_uuid author_id of
        None \<Rightarrow> Inl invalid_uuid
      | Some a \<Rightarrow> Inr (filter (\<lambda>p. authorId p = a \<and> parentPostId p \<noteq> None) (posts db)))"

text \<open>
  \<open>getAllCommentsFromPost\<close> passes no \<^verbatim>\<open>orderBy\<close> for the comments (the one it
  passes orders the reactions included with each comment). Prisma then orders by the
  primary key, ascending, when a cursor, a \<^verbatim>\<open>take\<close> or a positive \<^verbatim>\<open>skip\<close> is
  given, and otherwise returns the rows in storage order.
\<close>

definition comment_getAllCommentsFromPost ::
    "database \<Rightarrow> string \<Rightarrow> CursorPagination \<Rightarrow> error + CommentDTO list" where
  "comment_getAllCommentsFromPost db postId options =
     (case read_uuid postId of
        None \<Rightarrow> Inl invalid_uuid
      | Some parent \<Rightarrow>
          (let matching = filter (\<lambda>p. parentPostId p = Some parent) (posts db);
               implicit_order =
                 (cursor_of options \<noteq> None \<or> take_of options \<noteq> None
                  \<or> (case skip_of options of None \<Rightarrow> False | Some k \<Rightarrow> 0 < k))
           in findMany_window post_id post_id (posts db)
                (if implicit_order then sort_key post_id matching else matching)
                (cursor_of options) (skip_of options) (take_of options)))"

definition getComment ::
    "database \<Rightarrow> string \<Rightarrow> string \<Rightarrow> repo_call list \<times> (error + CommentDTO)" where
  "getComment db userId postId =
     (let errors = validate_GetCommentDTO userId postId in
      if errors \<noteq> [] then ([], Inl (ValidationException errors))
      else
        let calls1 = [Call_comment_getById postId] in
        case comment_getById db postId of
          Inl e \<Rightarrow> (calls1, Inl e)
        | Inr None \<Rightarrow> (calls1, Inl (NotFoundException ''comment''))
        | Inr (Some comment) \<Rightarrow>
            if parentPostId comment = None
            then (calls1, Inl (NotFoundException ''this is not a comment''))
            else
              let calls2 = calls1 @ [Call_isUserPublicOrFollowed userId (authorId comment)] in
              (case isUserPublicOrFollowed db userId (authorId comment) of
                 Inl e \<Rightarrow> (calls2, Inl e)
               | Inr False \<Rightarrow> (calls2, Inl InvalidUserException)
               | Inr True \<Rightarrow> (calls2, Inr comment)))"

definition getAllCommentsFromUser ::
    "database \<Rightarrow> string \<Rightarrow> string \<Rightarrow> repo_call list \<times> (error + CommentDTO list)" where
  "getAllCommentsFromUser db userId author_id =
     (let errors = validate_GetCommentsFromUserDTO userId author_id in
      if errors \<noteq> [] then ([], Inl (ValidationException errors))
      else
        let calls1 = [Call_isUserPublicOrFollowed userId author_id] in
        case isUserPublicOrFollowed db userId author_id of
          Inl e \<Rightarrow> (calls1, Inl e)
        | Inr False \<Rightarrow> (calls1, Inl InvalidUserException)
        | Inr True \<Rightarrow>
            let calls2 = calls1 @ [Call_comment_getAllCommentsFromUser author_id] in
            (case comment_getAllCommentsFromUser db author_id of
               Inl e \<Rightarrow> (calls2, Inl e)
             | Inr comments \<Rightarrow>
                 if comments = [] then (calls2, Inl (NotFoundException ''comments''))
                 else (calls2, Inr comments)))"

text \<open>
  The comment page of a post. The service and the controller type the options as
  \<^verbatim>\<open>OffsetPagination\<close> and pass \<^verbatim>\<open>{limit, skip}\<close>; the repository reads
  \<^verbatim>\<open>limit\<close>, \<^verbatim>\<open>before\<close> and \<^verbatim>\<open>after\<close>, so it sees the limit and no cursor.
\<close>

record OffsetPagination =
  offset_limit :: "int option"
  offset_skip :: "int option"

definition getAllCommentsFromPostPaginated ::
    "database \<Rightarrow> string \<Rightarrow> string \<Rightarrow> OffsetPagination \<Rightarrow> repo_call list \<times> (error + CommentDTO list)" where
  "getAllCommentsFromPostPaginated db userId postId options =
     (let errors = validate_GetCommentDTO userId postId in
      if errors \<noteq> [] then ([], Inl (ValidationException errors))
      else
        let calls1 = [Call_comment_getById postId] in
        case comment_getById db postId of
          Inl e \<Rightarrow> (calls1, Inl e)
        | Inr None \<Rightarrow> (calls1, Inl (NotFoundException ''post''))
        | Inr (Some post) \<Rightarrow>
            let calls2 = calls1 @ [Call_isUserPublicOrFollowed userId (authorId post)] in
            (case isUserPublicOrFollowed db userId (authorId post) of
               Inl e \<Rightarrow> (calls2, Inl e)
             | Inr False \<Rightarrow> (calls2, Inl InvalidUserException)
             | Inr True \<Rightarrow>
                 let calls3 = calls2 @ [Call_comment_getAllCommentsFromPost postId] in
                 (case comment_getAllCommentsFromPost db postId
                         \<lparr>limit = offset_limit options, before = None, after = None\<rparr> of
                    Inl e \<Rightarrow> (calls3, Inl e)
                  | Inr comments \<Rightarrow>
                      if comments = [] then (calls3, Inl (NotFoundException ''no comments found''))
                      else (calls3, Inr comments))))"

subsection \<open>Reactions\<close>

text \<open>
  \<^verbatim>\<open>ReactionRepositoryImpl.getAllReactionsFromUser\<close> and
  \<^verbatim>\<open>ReactionServiceImpl.getReactionsFromUser\<close>.
\<close>

definition reaction_getAllReactionsFromUser :: "database \<Rightarrow> string \<Rightarrow> error + Reaction list" where
  "reaction_getAllReactionsFromUser db author_id =
     (case read_uuid author_id of
        None \<Rightarrow> Inl invalid_uuid
      | Some a \<Rightarrow> Inr (filter (\<lambda>r. reaction_authorId r = a) (reaction_rows db)))"

definition getReactionsFromUser ::
    "database \<Rightarrow> string \<Rightarrow> string \<Rightarrow> repo_call list \<times> (error + Reaction list)" where
  "getReactionsFromUser db userId author_id =
     (let errors = validate_GetReactionsFromUserDTO userId author_id in
      if errors \<noteq> [] then ([], Inl (ValidationException errors))
      else
        let calls1 = [Call_isUserPublicOrFollowed userId author_id] in
        case isUserPublicOrFollowed db userId author_id of
          Inl e \<Rightarrow> (calls1, Inl e)
        | Inr False \<Rightarrow> (calls1, Inl ForbiddenException)
        | Inr True \<Rightarrow>
            let calls2 = calls1 @ [Call_reaction_getAllReactionsFromUser author_id] in
            (case reaction_getAllReactionsFromUser db author_id of
               Inl e \<Rightarrow> (calls2, Inl e)
             | Inr found \<Rightarrow>
                 if found = [] then (calls2, Inl (NotFoundException ''reactions''))
                 else (calls2, Inr found)))"

section \<open>Realtime message relay\<close>

subsection \<open>User service checks and the message service\<close>

text \<open>
  \<^verbatim>\<open>UserServiceImpl.checkIfUserExists\<close> and \<^verbatim>\<open>UserServiceImpl.isUserFollowed\<close>, which
  the socket server calls, \<^verbatim>\<open>MessageRepositoryImpl.create\<close> (\<open>message_repo_create\<close>) and
  \<^verbatim>\<open>MessageServiceImpl.create\<close> (\<open>message_create\<close>). The two checks test their
  arguments with \<^verbatim>\<open>isUUID\<close> before they call the repository, and \<open>isUserFollowed\<close>
  compares the two texts (\<^verbatim>\<open>followerID === followedID\<close>). The row of a message
  carries the two identifiers in the text the handler was given.
\<close>

definition checkIfUserExists :: "database \<Rightarrow> string \<Rightarrow> error + bool" where
  "checkIfUserExists db userId =
     (if \<not> isUUID userId then Inr False else repo_checkIfUserExists db userId)"

definition isUserFollowed :: "database \<Rightarrow> string \<Rightarrow> string \<Rightarrow> error + bool" where
  "isUserFollowed db followerID followedID =
     (if \<not> isUUID followerID \<or> \<not> isUUID followedID then Inr False
      else if followerID = followedID then Inr True
      else (case repo_isUserFollowed db followerID followedID of
              Inl e \<Rightarrow> Inl e
            | Inr False \<Rightarrow> Inr False
            | Inr True \<Rightarrow> Inr True))"

definition message_repo_create :: "database \<Rightarrow> generated \<Rightarrow> MessageDTO \<Rightarrow> Message \<times> database" where
  "message_repo_create db gen data =
     (let row = \<lparr>senderId = senderId data, receiverId = receiverId data,
                  message_content = message_content data,
                  message_id = newId gen, message_createdAt = now gen\<rparr>
      in (row, db\<lparr>messages := messages db @ [row]\<rparr>))"

definition message_create ::
    "database \<Rightarrow> generated \<Rightarrow> MessageDTO \<Rightarrow> (error + Message) \<times> database" where
  "message_create db gen data =
     (let errors = validate_MessageDTO (senderId data) (receiverId data) (message_content data) in
      if errors \<noteq> [] then (Inl (ValidationException errors), db)
      else (case message_repo_create db gen data of (row, db') \<Rightarrow> (Inr row, db')))"

subsection \<open>The handler of the \<^verbatim>\<open>message\<close> event\<close>

text \<open>
  The \<^verbatim>\<open>socket.on('message', ...)\<close> handler of \<^verbatim>\<open>src/utils/socketIoServer.ts\<close>.
  What the handler does to the outside, in order: an emit of the message to a set of
  rooms (\<^verbatim>\<open>io.to(receiverId).to(senderId).emit('message', ...)\<close>), a row written to the
  \<^verbatim>\<open>Message\<close> table, an \<^verbatim>\<open>error\<close> event emitted to one socket
  (\<^verbatim>\<open>socket.emit('error', ...)\<close>). The handler never disconnects the socket; the socket
  is returned as it was given.
\<close>

datatype event =
    EmitToRooms "string list" MessageDTO
  | Persisted Message
  | EmitError string string

record socket =
  socket_id :: string
  socket_userId :: string
  connected :: bool

record relay_outcome =
  events :: "event list"
  socket_after :: socket
  db_after :: database

definition client_message :: "error \<Rightarrow> string" where
  "client_message e =
     (case e of
        ForbiddenException \<Rightarrow> error_message e
      | NotFoundException model \<Rightarrow> error_message e
      | _ \<Rightarrow> ''Internal server error'')"

definition on_message :: "database \<Rightarrow> generated \<Rightarrow> socket \<Rightarrow> string \<Rightarrow> string \<Rightarrow> relay_outcome" where
  "on_message db gen sock receiver text =
     (let sender = socket_userId sock;
          attempt =
            (case checkIfUserExists db receiver of
               Inl e \<Rightarrow> ([], Inl e, db)
             | Inr False \<Rightarrow> ([], Inl (NotFoundException ''user not found''), db)
             | Inr True \<Rightarrow>
                 (case isUserFollowed db sender receiver of
                    Inl e \<Rightarrow> ([], Inl e, db)
                  | Inr False \<Rightarrow> ([], Inl ForbiddenException, db)
                  | Inr True \<Rightarrow>
                      (let data = \<lparr>senderId = sender, receiverId = receiver, message_content = text\<rparr>;
                           emitted = [EmitToRooms [receiver, sender] data]
                       in case message_create db gen data of
                            (Inl e, db') \<Rightarrow> (emitted, Inl e, db')
                          | (Inr row, db') \<Rightarrow> (emitted @ [Persisted row], Inr (), db'))))
      in case attempt of
           (sent, Inl e, db') \<Rightarrow>
             \<lparr>events = sent @ [EmitError (socket_id sock) (client_message e)],
              socket_after = sock, db_after = db'\<rparr>
         | (sent, Inr u, db') \<Rightarrow> \<lparr>events = sent, socket_after = sock, db_after = db'\<rparr>)"

section \<open>Example data\<close>

text \<open>Identifiers in canonical text, and one identifier of user A spelled in upper case.\<close>

definition idA :: string where "idA = ''aaaaaaaa-aaaa-4aaa-8aaa-aaaaaaaaaaaa''"
definition idB :: string where "idB = ''bbbbbbbb-bbbb-4bbb-8bbb-bbbbbbbbbbbb''"
definition idC :: string where "idC = ''cccccccc-cccc-4ccc-8ccc-cccccccccccc''"
definition idD :: string where "idD = ''dddddddd-dddd-4ddd-8ddd-dddddddddddd''"
definition idE :: string where "idE = ''eeeeeeee-eeee-4eee-8eee-eeeeeeeeeeee''"
definition idF1 :: string where "idF1 = ''f1f1f1f1-f1f1-4f1f-8f1f-f1f1f1f1f1f1''"
definition idF2 :: string where "idF2 = ''f2f2f2f2-f2f2-4f2f-8f2f-f2f2f2f2f2f2''"
definition idP1 :: string where "idP1 = ''11111111-1111-4111-8111-111111111111''"
definition idP2 :: string where "idP2 = ''22222222-2222-4222-8222-222222222222''"
definition idP3 :: string where "idP3 = ''33333333-3333-4333-8333-333333333333''"
definition idA_upper :: string where "idA_upper = ''AAAAAAAA-AAAA-4AAA-8AAA-AAAAAAAAAAAA''"
definition idB_upper :: string where "idB_upper = ''BBBBBBBB-BBBB-4BBB-8BBB-BBBBBBBBBBBB''"

definition mkUser :: "string \<Rightarrow> Visibility \<Rightarrow> User" where
  "mkUser i v = \<lparr>user_id = i, username = i, name = None, visibility = v, profilePicture = None\<rparr>"

text \<open>
  Users A (public), B (private), C (hidden) and D (public); D follows B and D follows C.
  No user has the identifier \<open>idE\<close>.
\<close>

definition db0 :: database where
  "db0 = \<lparr>users = [mkUser idA PUBLIC, mkUser idB PRIVATE, mkUser idC HIDDEN, mkUser idD PUBLIC],
          follows = [\<lparr>follow_id = idF1, followerId = idD, followedId = idB, follow_createdAt = 1\<rparr>,
                     \<lparr>follow_id = idF2, followerId = idD, followedId = idC, follow_createdAt = 2\<rparr>],
          posts = [], reaction_rows = [], messages = []\<rparr>"

definition gen0 :: generated where "gen0 = \<lparr>newId = idE, now = 1000\<rparr>"

definition s3_0 :: aws where
  "s3_0 = \<lparr>getSignedUrl = (\<lambda>k. ''https://bucket/'' @ k), randomUUID = (\<lambda>k. idE)\<rparr>"

definition five_images :: "string list" where
  "five_images = [''1.png'', ''2.png'', ''3.png'', ''4.png'', ''5.png'']"

definition mkPost :: "string \<Rightarrow> string \<Rightarrow> int \<Rightarrow> string option \<Rightarrow> CommentDTO" where
  "mkPost i a t parent =
     \<lparr>post_id = i, authorId = a, content = ''hola'', images = [], createdAt = t, parentPostId = parent\<rparr>"

text \<open>The users of \<open>db0\<close> with three posts of A, stored out of date order.\<close>

definition db1 :: database where
  "db1 = db0\<lparr>posts := [mkPost idP3 idA 100 None, mkPost idP1 idA 300 None, mkPost idP2 idA 200 None]\<rparr>"


text \<open>A post of A with two comments by D, the older one stored first.\<close>

definition db2 :: database where
  "db2 = db0\<lparr>posts := [mkPost idP1 idA 50 None, mkPost idP2 idD 100 (Some idP1),
                        mkPost idP3 idD 200 (Some idP1)]\<rparr>"

definition sockA :: socket where
  "sockA = \<lparr>socket_id = ''socket-1'', socket_userId = idA, connected = True\<rparr>"


section \<open>Helper lemmas\<close>

lemma read_uuid_isUUID: "isUUID s \<Longrightarrow> read_uuid s = Some (canonical s)"
  by (simp add: read_uuid_def)

lemma read_uuid_Nil: "read_uuid [] = None"
  by (simp add: read_uuid_def isUUID_def)

lemma findUnique_read:
  "read_uuid k = Some u \<Longrightarrow> findUnique ident rows k = Inr (find (\<lambda>r. ident r = u) rows)"
  by (simp add: findUnique_def)

lemma follow_findFirst_read:
  "read_uuid a = Some x \<Longrightarrow> read_uuid b = Some y \<Longrightarrow>
   follow_findFirst db a b = Inr (find (\<lambda>f. followerId f = x \<and> followedId f = y) (follows db))"
  by (simp add: follow_findFirst_def)

lemma find_follow_None_iff:
  "find (\<lambda>f. followerId f = x \<and> followedId f = y) fs = None
     \<longleftrightarrow> \<not> (\<exists>f \<in> set fs. followerId f = x \<and> followedId f = y)"
  by (auto simp: find_None_iff)

lemma isUUID_idA: "isUUID idA"
  by code_simp

lemma isUUID_idB: "isUUID idB"
  by code_simp

lemma isUUID_idC: "isUUID idC"
  by code_simp

lemma isUUID_idD: "isUUID idD"
  by code_simp

lemma isUUID_idE: "isUUID idE"
  by code_simp

lemma isUUID_idP1: "isUUID idP1"
  by code_simp

lemma isUUID_idB_upper: "isUUID idB_upper"
  by code_simp


lemma isUUID_not_empty: "isUUID v \<Longrightarrow> isNotEmpty v"
  by (auto simp: isUUID_def isNotEmpty_def)

lemma uuid_property_ok: "isUUID v \<Longrightarrow> uuid_property p v = []"
  by (simp add: uuid_property_def violations_def isUUID_not_empty)

lemma uuid_property_empty: "uuid_property p [] = [(p, [''isUuid'', ''isNotEmpty''])]"
  by (simp add: uuid_property_def violations_def isNotEmpty_def isUUID_def)

lemma follower_getById_read:
  "isUUID a \<Longrightarrow> isUUID b \<Longrightarrow>
   follower_getById db a b
     = Inr (find (\<lambda>f. followerId f = canonical a \<and> followedId f = canonical b) (follows db))"
  by (simp add: follower_getById_def follow_findFirst_read read_uuid_isUUID)

lemma createFollower_failure_keeps_db:
  "fst (createFollower db gen a b) = Inl e \<Longrightarrow> snd (createFollower db gen a b) = db"
  by (auto simp: createFollower_def Let_def split: if_splits option.splits sum.splits bool.splits)

lemma deleteFollower_failure_keeps_db:
  "fst (deleteFollower db a b) = Inl e \<Longrightarrow> snd (deleteFollower db a b) = db"
  by (auto simp: deleteFollower_def Let_def split: if_splits option.splits sum.splits)



lemma filter_from_member:
  "sorted (map k xs) \<Longrightarrow> distinct (map k xs) \<Longrightarrow> x \<in> set xs \<Longrightarrow>
   filter (\<lambda>r. k x \<le> k r) xs = x # filter (\<lambda>r. k x < k r) xs"
proof (induction xs)
  case Nil
  then show ?case by simp
next
  case (Cons y ys)
  show ?case
  proof (cases "y = x")
    case True
    from Cons.prems have "\<forall>r \<in> set ys. k x \<le> k r \<and> k r \<noteq> k x"
      using True by (auto simp: image_iff)
    then have "filter (\<lambda>r. k x \<le> k r) ys = filter (\<lambda>r. k x < k r) ys"
      by (intro filter_cong) auto
    with True show ?thesis by simp
  next
    case False
    with Cons.prems have xin: "x \<in> set ys" by simp
    with Cons.prems have "k y \<le> k x" "k y \<noteq> k x" by (auto simp: image_iff)
    then have "k y < k x" by simp
    moreover have "filter (\<lambda>r. k x \<le> k r) ys = x # filter (\<lambda>r. k x < k r) ys"
      using Cons.IH Cons.prems xin by simp
    ultimately show ?thesis by auto
  qed
qed

lemma distinct_keys:
  "distinct (map post_id xs) \<Longrightarrow> distinct (map date_desc_id_asc xs)"
proof -
  assume d: "distinct (map post_id xs)"
  have "map post_id xs = map snd (map date_desc_id_asc xs)"
    by (simp add: date_desc_id_asc_def comp_def)
  with d show ?thesis by (metis distinct_map)
qed

lemma key_less_iff: "date_desc_id_asc x < date_desc_id_asc r \<longleftrightarrow>
    (createdAt r < createdAt x \<or> (createdAt r = createdAt x \<and> post_id x < post_id r))"
  by (auto simp: date_desc_id_asc_def less_prod_def)

lemma to_ExtendedPostDTO_fields [simp]:
  "post_id (to_ExtendedPostDTO db p) = post_id p"
  "createdAt (to_ExtendedPostDTO db p) = createdAt p"
  by (simp_all add: to_ExtendedPostDTO_def Let_def)


lemma find_member:
  "distinct (map f xs) \<Longrightarrow> x \<in> set xs \<Longrightarrow> find (\<lambda>r. f r = f x) xs = Some x"
proof (induction xs)
  case Nil
  then show ?case by simp
next
  case (Cons y ys)
  then show ?case by (cases "y = x") (auto simp: image_iff)
qed

lemma feed_queue_props:
  assumes "distinct (map post_id (posts db))"
  shows "sorted (map date_desc_id_asc (sort_key date_desc_id_asc (filter (feed_filter db ids) (posts db))))"
    and "distinct (map date_desc_id_asc (sort_key date_desc_id_asc (filter (feed_filter db ids) (posts db))))"
    and "set (sort_key date_desc_id_asc (filter (feed_filter db ids) (posts db)))
         = set (filter (feed_filter db ids) (posts db))"
proof -
  let ?f = "filter (feed_filter db ids) (posts db)"
  show "sorted (map date_desc_id_asc (sort_key date_desc_id_asc ?f))" by simp
  show "set (sort_key date_desc_id_asc ?f) = set ?f" by simp
  have "distinct (map post_id ?f)"
    using assms(1) by (rule distinct_map_filter)
  then have "distinct ?f" and "inj_on post_id (set ?f)"
    by (simp_all add: distinct_map)
  then have "distinct (map post_id (sort_key date_desc_id_asc ?f))"
    by (simp add: distinct_map)
  then show "distinct (map date_desc_id_asc (sort_key date_desc_id_asc ?f))" by (rule distinct_keys)
qed


lemma window_after_cursor:
  assumes "case t of None \<Rightarrow> True | Some n \<Rightarrow> 0 < n"
  shows "window_from k q (Some (Some x)) (Some (Suc 0)) t
     = (case t of None \<Rightarrow> drop 1 (filter (\<lambda>r. k x \<le> k r) q)
                | Some n \<Rightarrow> take (nat n) (drop 1 (filter (\<lambda>r. k x \<le> k r) q)))"
  using assms by (cases t) (simp_all add: window_from_def Let_def)

lemma checkIfUserExists_eq:
  "checkIfUserExists db r
     = Inr (isUUID r \<and> find (\<lambda>u. user_id u = canonical r) (users db) \<noteq> None)"
  by (cases "isUUID r")
    (auto simp: checkIfUserExists_def repo_checkIfUserExists_def findUnique_def read_uuid_isUUID
      split: option.splits)

lemma isUserFollowed_eq:
  "isUserFollowed db a b =
     Inr (isUUID a \<and> isUUID b \<and>
          (a = b \<or> (find (\<lambda>u. user_id u = canonical b) (users db) \<noteq> None
                     \<and> (\<exists>f \<in> set (follows db). followerId f = canonical a \<and> followedId f = canonical b))))"
proof (cases "isUUID a \<and> isUUID b")
  case False
  then show ?thesis by (auto simp: isUserFollowed_def)
next
  case True
  then have ra: "read_uuid a = Some (canonical a)" and rb: "read_uuid b = Some (canonical b)"
    by (simp_all add: read_uuid_isUUID)
  have "repo_isUserFollowed db a b =
      Inr (find (\<lambda>u. user_id u = canonical b) (users db) \<noteq> None
           \<and> (\<exists>f \<in> set (follows db). followerId f = canonical a \<and> followedId f = canonical b))"
    using find_follow_None_iff[of "canonical a" "canonical b" "follows db"]
    by (auto simp: repo_isUserFollowed_def findUnique_read[OF rb] follow_findFirst_read[OF ra rb]
        split: option.splits)
  with True show ?thesis by (auto simp: isUserFollowed_def split: bool.splits)
qed


lemma validate_pair_ok:
  "isUUID a \<Longrightarrow> isUUID b \<Longrightarrow> validate_PostsByAuthorDTO a b = []"
  "isUUID a \<Longrightarrow> isUUID b \<Longrightarrow> validate_GetCommentsFromUserDTO a b = []"
  "isUUID a \<Longrightarrow> isUUID b \<Longrightarrow> validate_GetReactionsFromUserDTO a b = []"
  "isUUID a \<Longrightarrow> isUUID b \<Longrightarrow> validate_GetCommentDTO a b = []"
  by (simp_all add: validate_PostsByAuthorDTO_def validate_GetCommentsFromUserDTO_def
      validate_GetReactionsFromUserDTO_def validate_GetCommentDTO_def uuid_property_ok)

lemma isUserPublicOrFollowed_total:
  "isUUID a \<Longrightarrow> isUUID b \<Longrightarrow> \<exists>r. isUserPublicOrFollowed db a b = Inr r"
  by (auto simp: isUserPublicOrFollowed_def findUnique_def follow_findFirst_def read_uuid_isUUID
      split: option.splits)

lemma generatePreSignedUrls_length:
  "generatePreSignedUrls s3 xs = Inr urls \<Longrightarrow> length urls = length xs"
  by (induction xs arbitrary: urls) (auto split: sum.splits)

lemma violations_Nil_iff: "violations p checks = [] \<longleftrightarrow> list_all snd checks"
  by (induction checks) (auto simp: violations_def Let_def)

lemma validate_PostContentDTO_Nil_iff:
  "validate_PostContentDTO body = [] \<longleftrightarrow>
     length (body_content body) \<le> 240 \<and> body_content body \<noteq> []
     \<and> (case body_images body of
           None \<Rightarrow> True
         | Some xs \<Rightarrow> list_all (maxLength 100) xs \<and> length xs \<le> 4)"
  by (auto simp: validate_PostContentDTO_def violations_Nil_iff maxLength_def isNotEmpty_def
      arrayMaxSize_def split: option.splits)

lemma post_create_fields:
  "post_create db gen userId text imgs = Inr (post, db') \<Longrightarrow>
     content post = text \<and> images post = (case imgs of None \<Rightarrow> [] | Some xs \<Rightarrow> xs)"
  by (auto simp: post_create_def Let_def PostDTO.truncate_def split: option.splits)

lemma createPost_fields:
  assumes "createPost db gen s3 userId text imgs = (Inr post, db')"
  shows "content post = text
       \<and> length (images post) = (case imgs of None \<Rightarrow> 0 | Some xs \<Rightarrow> length xs)"
proof (cases imgs)
  case None
  with assms show ?thesis
    by (auto simp: createPost_def split: sum.splits dest: post_create_fields)
next
  case (Some xs)
  show ?thesis
  proof (cases xs)
    case Nil
    with Some assms show ?thesis
      by (auto simp: createPost_def split: sum.splits dest: post_create_fields)
  next
    case (Cons img rest)
    with Some assms obtain urls where
      u: "generatePreSignedUrls s3 (img # rest) = Inr urls"
      and c: "post_create db gen userId text (Some (map signedUrl urls)) = Inr (post, db')"
      by (auto simp: createPost_def split: sum.splits)
    from post_create_fields[OF c] generatePreSignedUrls_length[OF u] Some Cons
    show ?thesis by simp
  qed
qed

section \<open>Claims\<close>

subsection \<open>C1\<close>




subsection \<open>C2\<close>

text \<open>
  C2 (as amended). Let the identifiers of the stored posts be distinct, let the viewer's
  identifier be one the database reads, let \<open>X\<close> be the identifier of a post \<open>x\<close> of
  the viewer's qualifying set, and call \<open>getAllByDatePaginated\<close> with an \<open>after\<close>
  cursor that reads as \<open>X\<close>, a \<open>before\<close> cursor that is absent or empty, and a limit
  that is absent or not negative. Then the call returns a page; no record of the page is
  \<open>X\<close>; every record of it is strictly after \<open>x\<close> in the order (createdAt
  descending, id ascending); and for a limit \<open>n \<ge> 1\<close> the page has at most \<open>n\<close>
  records.
\<close>

theorem C2_after_cursor:
  assumes ids: "distinct (map post_id (posts db))"
    and viewer: "followedIds_of db userId = Inr followed"
    and bef: "\<not> truthy_string (before options)"
    and aft: "after options = Some c" "read_uuid c = Some X"
    and lim: "case limit options of None \<Rightarrow> True | Some n \<Rightarrow> 0 \<le> n"
    and present: "x \<in> set (filter (feed_filter db followed) (posts db))" "post_id x = X"
  shows "\<exists>rs. getAllByDatePaginated db userId options = Inr rs
     \<and> (\<forall>n. limit options = Some n \<and> 1 \<le> n \<longrightarrow> length rs \<le> nat n)
     \<and> (\<forall>r \<in> set rs. post_id r \<noteq> X \<and> strictly_after x r)"
proof -
  let ?k = "date_desc_id_asc :: CommentDTO \<Rightarrow> int \<times> string"
  let ?q = "sort_key ?k (filter (feed_filter db followed) (posts db))"
  let ?rest = "filter (\<lambda>r. ?k x < ?k r) ?q"
  let ?t = "take_of options"
  from aft(2) have cne: "c \<noteq> []" using read_uuid_Nil by auto
  have cur: "cursor_of options = Some c" and skp: "skip_of options = Some (Suc 0)"
    using aft(1) cne by (simp_all add: cursor_of_def skip_of_def truthy_string_def nullish_def)
  have tk: "?t = (if truthy_number (limit options) then limit options else None)"
    using bef by (simp add: take_of_def)
  have fwd: "case ?t of None \<Rightarrow> True | Some n \<Rightarrow> 0 < n"
    using lim by (auto simp: tk truthy_number_def split: option.splits)
  from present have xin: "x \<in> set (posts db)" by simp
  have fu: "findUnique post_id (posts db) c = Inr (Some x)"
    using find_member[OF ids xin] present(2) by (simp add: findUnique_read[OF aft(2)])
  have sorted_q: "sorted (map ?k ?q)" and distinct_q: "distinct (map ?k ?q)"
    and set_q: "set ?q = set (filter (feed_filter db followed) (posts db))"
    using feed_queue_props[OF ids, of followed] by simp_all
  from present set_q have xq: "x \<in> set ?q" by simp
  have from_cursor: "filter (\<lambda>r. ?k x \<le> ?k r) ?q = x # ?rest"
    using filter_from_member[OF sorted_q distinct_q xq] .
  define rows where "rows = (case ?t of None \<Rightarrow> ?rest | Some n \<Rightarrow> take (nat n) ?rest)"
  have win: "findMany_window ?k post_id (posts db) ?q (cursor_of options) (skip_of options) ?t
      = Inr rows"
    by (simp add: findMany_window_def cur skp fu window_after_cursor[OF fwd] from_cursor rows_def
        split: option.splits)
  have result: "getAllByDatePaginated db userId options = Inr (map (to_ExtendedPostDTO db) rows)"
    by (simp add: getAllByDatePaginated_def viewer win)
  have sub: "set rows \<subseteq> set ?rest"
    by (auto simp: rows_def split: option.splits dest: in_set_takeD)
  have len: "length rows \<le> nat n" if "limit options = Some n" "1 \<le> n" for n
    using that by (simp add: rows_def tk truthy_number_def)
  have each: "post_id r \<noteq> X \<and> strictly_after x r" if "r \<in> set rows" for r
  proof -
    from that sub have rq: "r \<in> set ?q" and less: "?k x < ?k r" by auto
    from rq set_q have rin: "r \<in> set (posts db)" by simp
    from less have "r \<noteq> x" by auto
    with ids xin rin have "post_id r \<noteq> post_id x"
      by (auto simp: distinct_map dest: inj_onD)
    moreover from less have "strictly_after x r"
      by (simp add: key_less_iff strictly_after_def)
    ultimately show ?thesis using present(2) by simp
  qed
  have "\<forall>r \<in> set (map (to_ExtendedPostDTO db) rows). post_id r \<noteq> X \<and> strictly_after x r"
    using each by (auto simp: strictly_after_def)
  with result len show ?thesis by auto
qed

theorem C2_after_cursor_witness:
  "distinct (map post_id (posts db1))
   \<and> followedIds_of db1 idB = Inr []
   \<and> read_uuid idP1 = Some idP1
   \<and> mkPost idP1 idA 300 None \<in> set (filter (feed_filter db1 []) (posts db1))
   \<and> (\<exists>rs. getAllByDatePaginated db1 idB \<lparr>limit = Some 1, before = None, after = Some idP1\<rparr> = Inr rs
          \<and> length rs \<le> 1
          \<and> list_all (\<lambda>r. post_id r \<noteq> idP1 \<and> strictly_after (mkPost idP1 idA 300 None) r) rs)
   \<and> map_sum id (map post_id)
        (getAllByDatePaginated db1 idB \<lparr>limit = Some 1, before = None, after = Some idP1\<rparr>)
       = Inr [idP2]
   \<and> map_sum id (map post_id)
        (getAllByDatePaginated db1 idB \<lparr>limit = None, before = None, after = Some idP1\<rparr>)
       = Inr [idP2, idP3]"
proof -
  have a: "distinct (map post_id (posts db1))" by code_simp
  have b: "followedIds_of db1 idB = Inr []" by code_simp
  have c: "read_uuid idP1 = Some idP1" by code_simp
  have d: "mkPost idP1 idA 300 None \<in> set (filter (feed_filter db1 []) (posts db1))" by code_simp
  have e: "post_id (mkPost idP1 idA 300 None) = idP1" by (simp add: mkPost_def)
  have f: "map_sum id (map post_id)
        (getAllByDatePaginated db1 idB \<lparr>limit = Some 1, before = None, after = Some idP1\<rparr>)
       = Inr [idP2]" by code_simp
  have g: "map_sum id (map post_id)
        (getAllByDatePaginated db1 idB \<lparr>limit = None, before = None, after = Some idP1\<rparr>)
       = Inr [idP2, idP3]" by code_simp
  have t: "\<not> truthy_string (before \<lparr>limit = Some 1, before = None, after = Some idP1\<rparr>)"
    by (simp add: truthy_string_def)
  show ?thesis
    using C2_after_cursor[OF a b t _ c _ d e] a b c d f g
    by (auto simp: list_all_iff)
qed

text \<open>
  C2 as stated fails in its size bound for the limit 0, which is falsy in JavaScript: no
  \<^verbatim>\<open>take\<close> is passed and both posts older than the cursor are returned. It fails in
  its direction for a negative limit: \<^verbatim>\<open>take: -1\<close> makes the query scan backwards
  from the cursor, and the post returned after the cursor \<open>idP2\<close> is \<open>idP1\<close>, the
  newer one.
\<close>

theorem C2_counterexample:
  "map post_id (posts db1) = [idP3, idP1, idP2]
   \<and> map createdAt (posts db1) = [100, 300, 200]
   \<and> map_sum id (map post_id)
        (getAllByDatePaginated db1 idB \<lparr>limit = Some 0, before = None, after = Some idP1\<rparr>)
       = Inr [idP2, idP3]
   \<and> map_sum id (map post_id)
        (getAllByDatePaginated db1 idB \<lparr>limit = Some (- 1), before = None, after = Some idP2\<rparr>)
       = Inr [idP1]"
  by code_simp

subsection \<open>C3\<close>

text \<open>
  C3 (as amended). When the receiver is another identity than the sender and no follow edge
  from the sender to the receiver exists, the relay delivers nothing: the only event is one
  \<^verbatim>\<open>error\<close> event emitted to the sending socket (the Forbidden message when the
  receiver exists, the NotFound message otherwise), nothing is stored, and the socket is
  left as it was (the connection stays open). Only the edge from sender to receiver is
  looked at.
\<close>

theorem C3_relay_refused:
  assumes "socket_userId sock \<noteq> receiver"
    and "\<not> (\<exists>f \<in> set (follows db).
              followerId f = canonical (socket_userId sock) \<and> followedId f = canonical receiver)"
  shows "on_message db gen sock receiver text =
     \<lparr>events = [EmitError (socket_id sock)
                  (if checkIfUserExists db receiver = Inr True
                   then ''Forbidden. You are not allowed to perform this action''
                   else ''Not found. Couldn't find user not found'')],
      socket_after = sock, db_after = db\<rparr>"
proof -
  from assms have "isUserFollowed db (socket_userId sock) receiver = Inr False"
    by (simp add: isUserFollowed_eq)
  then show ?thesis
    by (auto simp: on_message_def client_message_def checkIfUserExists_eq
        split: bool.splits)
qed

theorem C3_relay_refused_witness:
  "socket_userId sockA \<noteq> idB
   \<and> follower_getById db0 idA idB = Inr None
   \<and> on_message db0 gen0 sockA idB ''hi'' =
       \<lparr>events = [EmitError ''socket-1'' ''Forbidden. You are not allowed to perform this action''],
        socket_after = sockA, db_after = db0\<rparr>"
proof -
  have a: "socket_userId sockA \<noteq> idB" by code_simp
  have n: "follower_getById db0 idA idB = Inr None" by code_simp
  have b: "\<not> (\<exists>f \<in> set (follows db0).
              followerId f = canonical (socket_userId sockA) \<and> followedId f = canonical idB)"
    by code_simp
  have c: "checkIfUserExists db0 idB = Inr True" by code_simp
  have d: "socket_id sockA = ''socket-1''" by (simp add: sockA_def)
  show ?thesis
    using C3_relay_refused[OF a b, of gen0 "''hi''"] a n c d by simp
qed

text \<open>
  C3 as stated fails when the sender writes to their own identity: \<open>isUserFollowed\<close>
  returns true for equal identifiers without looking for an edge, so the message is
  delivered and stored although A does not follow A.
\<close>

theorem C3_counterexample:
  "follower_getById db0 idA idA = Inr None
   \<and> on_message db0 gen0 sockA idA ''hi'' =
       \<lparr>events =
          [EmitToRooms [idA, idA] \<lparr>senderId = idA, receiverId = idA, message_content = ''hi''\<rparr>,
           Persisted \<lparr>senderId = idA, receiverId = idA, message_content = ''hi'',
                      message_id = idE, message_createdAt = 1000\<rparr>],
        socket_after = sockA,
        db_after = db0\<lparr>messages :=
          [\<lparr>senderId = idA, receiverId = idA, message_content = ''hi'',
            message_id = idE, message_createdAt = 1000\<rparr>]\<rparr>\<rparr>"
  by code_simp

subsection \<open>C4\<close>

text \<open>
  C4 (as amended). For well-formed UUID arguments (the DTO validation runs first and
  rejects anything else): \<open>follow(a, b)\<close> fails with a Conflict error when the edge
  already exists and the followed user exists; \<open>follow(a, a)\<close>, both arguments being
  the same text, fails with a Conflict error; \<open>unfollow(a, b)\<close> fails with a NotFound
  error when no edge exists. The edge is looked up by the UUIDs the two arguments are read
  as. Every failed call of either operation, whatever its arguments, leaves the database as
  it was.
\<close>

theorem C4_follow_unfollow_failures:
  "(isUUID a \<and> isUUID b
      \<and> (\<exists>f \<in> set (follows db). followerId f = canonical a \<and> followedId f = canonical b)
      \<and> follower_userExists db b = Inr True
      \<longrightarrow> (\<exists>c. createFollower db gen a b = (Inl (ConflictException c), db)))
   \<and> (isUUID a \<longrightarrow> createFollower db gen a a = (Inl (ConflictException ''cannot follow itself''), db))
   \<and> (isUUID a \<and> isUUID b
      \<and> \<not> (\<exists>f \<in> set (follows db). followerId f = canonical a \<and> followedId f = canonical b)
      \<longrightarrow> deleteFollower db a b = (Inl (NotFoundException ''follow''), db))
   \<and> (\<forall>e. fst (createFollower db gen a b) = Inl e \<longrightarrow> snd (createFollower db gen a b) = db)
   \<and> (\<forall>e. fst (deleteFollower db a b) = Inl e \<longrightarrow> snd (deleteFollower db a b) = db)"
proof (intro conjI impI allI)
  assume h: "isUUID a \<and> isUUID b
      \<and> (\<exists>f \<in> set (follows db). followerId f = canonical a \<and> followedId f = canonical b)
      \<and> follower_userExists db b = Inr True"
  then have v: "validate_CreateFollowDTO a b = []"
    by (simp add: validate_CreateFollowDTO_def uuid_property_ok)
  from h have "find (\<lambda>f. followerId f = canonical a \<and> followedId f = canonical b) (follows db) \<noteq> None"
    by (simp add: find_follow_None_iff)
  then obtain old where
    "find (\<lambda>f. followerId f = canonical a \<and> followedId f = canonical b) (follows db) = Some old"
    by blast
  with h have old: "follower_getById db a b = Inr (Some old)"
    by (simp add: follower_getById_read)
  show "\<exists>c. createFollower db gen a b = (Inl (ConflictException c), db)"
    using h v old by (simp add: createFollower_def)
next
  assume "isUUID a"
  then have "validate_CreateFollowDTO a a = []"
    by (simp add: validate_CreateFollowDTO_def uuid_property_ok)
  then show "createFollower db gen a a = (Inl (ConflictException ''cannot follow itself''), db)"
    by (simp add: createFollower_def)
next
  assume h: "isUUID a \<and> isUUID b
      \<and> \<not> (\<exists>f \<in> set (follows db). followerId f = canonical a \<and> followedId f = canonical b)"
  then have v: "validate_DeleteFollowDTO a b = []"
    by (simp add: validate_DeleteFollowDTO_def uuid_property_ok)
  from h have "follower_getById db a b = Inr None"
    by (simp add: follower_getById_read find_follow_None_iff)
  with v show "deleteFollower db a b = (Inl (NotFoundException ''follow''), db)"
    by (simp add: deleteFollower_def)
next
  fix e assume "fst (createFollower db gen a b) = Inl e"
  then show "snd (createFollower db gen a b) = db" by (rule createFollower_failure_keeps_db)
next
  fix e assume "fst (deleteFollower db a b) = Inl e"
  then show "snd (deleteFollower db a b) = db" by (rule deleteFollower_failure_keeps_db)
qed

theorem C4_follow_unfollow_failures_witness:
  "isUUID idD \<and> isUUID idB_upper \<and> isUUID idA
   \<and> follower_userExists db0 idB_upper = Inr True
   \<and> (\<exists>c. createFollower db0 gen0 idD idB_upper = (Inl (ConflictException c), db0))
   \<and> createFollower db0 gen0 idA idA = (Inl (ConflictException ''cannot follow itself''), db0)
   \<and> deleteFollower db0 idA idB_upper = (Inl (NotFoundException ''follow''), db0)
   \<and> fst (deleteFollower db0 idD idB_upper) = Inr ()"
proof -
  have c: "canonical idD = idD" "canonical idB_upper = idB" "canonical idA = idA"
    by code_simp+
  have e1: "\<exists>f \<in> set (follows db0). followerId f = canonical idD \<and> followedId f = canonical idB_upper"
    unfolding c by code_simp
  have e2: "\<not> (\<exists>f \<in> set (follows db0). followerId f = canonical idA \<and> followedId f = canonical idB_upper)"
    unfolding c by code_simp
  have x: "follower_userExists db0 idB_upper = Inr True" by code_simp
  have d: "fst (deleteFollower db0 idD idB_upper) = Inr ()" by code_simp
  show ?thesis
    using C4_follow_unfollow_failures[of idD idB_upper db0 gen0]
      C4_follow_unfollow_failures[of idA idB_upper db0 gen0]
      e1 e2 x d isUUID_idA isUUID_idB_upper isUUID_idD
    by blast
qed

text \<open>
  C4 as stated fails in two ways. The validation comes before every other check, so
  \<open>follow\<close> of two empty identifiers is a ValidationException and not a Conflict. And
  the guard against following oneself compares the two texts with \<^verbatim>\<open>===\<close>: given the
  identifier of user A once in lower case and once in upper case, the guard lets the call
  through, no edge from A to A is found, and the edge from A to A is stored.
\<close>

theorem C4_counterexample:
  "createFollower db0 gen0 [] [] =
     (Inl (ValidationException [(''followedId'', [''isUuid'', ''isNotEmpty'']),
                                (''followerId'', [''isUuid'', ''isNotEmpty''])]), db0)
   \<and> createFollower db0 gen0 idA idA_upper =
     (Inr \<lparr>follow_id = idE, followerId = idA, followedId = idA, follow_createdAt = 1000\<rparr>,
      db0\<lparr>follows := follows db0 @
        [\<lparr>follow_id = idE, followerId = idA, followedId = idA, follow_createdAt = 1000\<rparr>]\<rparr>)"
  by code_simp

subsection \<open>C5\<close>



subsection \<open>C6\<close>

text \<open>
  C6 (as amended). For every by-author retrieval called with well-formed UUID identifiers
  (the DTO validation runs first), the visibility resolver is called exactly once and
  before anything else, and it answers. When it denies the viewer, the operation fails with
  that single call made and no fetch: posts-by-author and comments-by-author raise
  InvalidUser, reactions-by-author raises the generic Forbidden error. When it allows the
  viewer, the fetch is the second and last repository call.
\<close>

theorem C6_by_author_permission_first:
  assumes "isUUID userId" and "isUUID author_id"
  shows "(\<exists>allowed. isUserPublicOrFollowed db userId author_id = Inr allowed)
       \<and> (isUserPublicOrFollowed db userId author_id = Inr False \<longrightarrow>
            getPostsByAuthor db s3 userId author_id
              = ([Call_isUserPublicOrFollowed userId author_id], Inl InvalidUserException)
          \<and> getAllCommentsFromUser db userId author_id
              = ([Call_isUserPublicOrFollowed userId author_id], Inl InvalidUserException)
          \<and> getReactionsFromUser db userId author_id
              = ([Call_isUserPublicOrFollowed userId author_id], Inl ForbiddenException))
       \<and> (isUserPublicOrFollowed db userId author_id = Inr True \<longrightarrow>
            fst (getPostsByAuthor db s3 userId author_id)
              = [Call_isUserPublicOrFollowed userId author_id, Call_post_getByAuthorId author_id]
          \<and> fst (getAllCommentsFromUser db userId author_id)
              = [Call_isUserPublicOrFollowed userId author_id,
                 Call_comment_getAllCommentsFromUser author_id]
          \<and> fst (getReactionsFromUser db userId author_id)
              = [Call_isUserPublicOrFollowed userId author_id,
                 Call_reaction_getAllReactionsFromUser author_id])"
  using assms isUserPublicOrFollowed_total[OF assms, of db]
  by (auto simp: getPostsByAuthor_def getAllCommentsFromUser_def getReactionsFromUser_def
      validate_pair_ok Let_def split: sum.splits)

theorem C6_by_author_permission_first_witness:
  "isUUID idA \<and> isUUID idB \<and> isUserPublicOrFollowed db0 idA idB = Inr False
   \<and> getPostsByAuthor db0 s3_0 idA idB = ([Call_isUserPublicOrFollowed idA idB], Inl InvalidUserException)
   \<and> getAllCommentsFromUser db0 idA idB = ([Call_isUserPublicOrFollowed idA idB], Inl InvalidUserException)
   \<and> getReactionsFromUser db0 idA idB = ([Call_isUserPublicOrFollowed idA idB], Inl ForbiddenException)
   \<and> isUserPublicOrFollowed db0 idD idB = Inr True
   \<and> fst (getPostsByAuthor db0 s3_0 idD idB)
        = [Call_isUserPublicOrFollowed idD idB, Call_post_getByAuthorId idB]
   \<and> fst (getAllCommentsFromUser db0 idD idB)
        = [Call_isUserPublicOrFollowed idD idB, Call_comment_getAllCommentsFromUser idB]
   \<and> fst (getReactionsFromUser db0 idD idB)
        = [Call_isUserPublicOrFollowed idD idB, Call_reaction_getAllReactionsFromUser idB]"
proof -
  have n: "isUserPublicOrFollowed db0 idA idB = Inr False" by code_simp
  have y: "isUserPublicOrFollowed db0 idD idB = Inr True" by code_simp
  show ?thesis
    using C6_by_author_permission_first[OF isUUID_idA isUUID_idB, of db0 s3_0]
      C6_by_author_permission_first[OF isUUID_idD isUUID_idB, of db0 s3_0]
      n y isUUID_idA isUUID_idB
    by simp
qed

text \<open>
  C6 as stated fails for reactions-by-author, where a viewer who may not view the author
  gets the generic Forbidden error, and for an identifier that is not a UUID, where the
  validation error comes before the permission check.
\<close>

theorem C6_counterexample:
  "isUserPublicOrFollowed db0 idA idB = Inr False
   \<and> getReactionsFromUser db0 idA idB = ([Call_isUserPublicOrFollowed idA idB], Inl ForbiddenException)
   \<and> getPostsByAuthor db0 s3_0 [] idB
        = ([], Inl (ValidationException [(''userId'', [''isUuid'', ''isNotEmpty''])]))"
  by code_simp

subsection \<open>C7\<close>



subsection \<open>C8\<close>

text \<open>
  C8. The comment page of a post is not ordered by date. On a post with two comments, the
  older one with the smaller identifier and stored first, the repository returns the older
  comment first, with a limit (Prisma orders by identifier) and without one (storage order),
  and so does the service behind the comment-page route. The claim asks for the newer
  comment first.
\<close>

theorem C8_comments_not_date_ordered:
  "map_sum id (map post_id)
      (comment_getAllCommentsFromPost db2 idP1 \<lparr>limit = Some 10, before = None, after = None\<rparr>)
     = Inr [idP2, idP3]
   \<and> map_sum id (map createdAt)
      (comment_getAllCommentsFromPost db2 idP1 \<lparr>limit = Some 10, before = None, after = None\<rparr>)
     = Inr [100, 200]
   \<and> map_sum id (map createdAt)
      (comment_getAllCommentsFromPost db2 idP1 \<lparr>limit = None, before = None, after = None\<rparr>)
     = Inr [100, 200]
   \<and> snd (getAllCommentsFromPostPaginated db2 idD idP1 \<lparr>offset_limit = Some 10, offset_skip = Some 0\<rparr>)
     = Inr [mkPost idP2 idD 100 (Some idP1), mkPost idP3 idD 200 (Some idP1)]"
  by code_simp

theorem C8_comments_not_date_ordered_witness:
  "map_sum id (map createdAt)
      (comment_getAllCommentsFromPost db2 idP1 \<lparr>limit = Some 10, before = None, after = None\<rparr>)
     \<noteq> Inr [200, 100]
   \<and> map createdAt (posts db2) = [50, 100, 200]"
  using C8_comments_not_date_ordered by (simp add: db2_def mkPost_def)

subsection \<open>C9\<close>

text \<open>
  C9 (as amended). The limits are those of the route \<^verbatim>\<open>POST /post\<close>, the only caller of
  \<open>createPost\<close>, where the body validation stands before the service. A body whose
  content exceeds 240 characters or whose images exceed 4 entries is rejected with a
  ValidationException and the database is left as it was; and every post the route returns
  has a content of at most 240 characters and at most 4 image references.
\<close>

theorem C9_post_route_limits:
  "((240 < length (body_content body)
       \<or> (case body_images body of None \<Rightarrow> False | Some xs \<Rightarrow> 4 < length xs))
      \<longrightarrow> (\<exists>es. post_route db gen s3 userId body = (Inl (ValidationException es), db)))
   \<and> (\<forall>post db'. post_route db gen s3 userId body = (Inr post, db')
         \<longrightarrow> length (content post) \<le> 240 \<and> length (images post) \<le> 4)"
proof (intro conjI impI allI)
  assume "240 < length (body_content body)
       \<or> (case body_images body of None \<Rightarrow> False | Some xs \<Rightarrow> 4 < length xs)"
  then have "validate_PostContentDTO body \<noteq> []"
    by (auto simp: validate_PostContentDTO_Nil_iff split: option.splits)
  then show "\<exists>es. post_route db gen s3 userId body = (Inl (ValidationException es), db)"
    by (simp add: post_route_def BodyValidation_def)
next
  fix post db'
  assume r: "post_route db gen s3 userId body = (Inr post, db')"
  then have v: "validate_PostContentDTO body = []"
    by (auto simp: post_route_def BodyValidation_def Let_def split: if_splits)
  with r have c: "createPost db gen s3 userId (body_content body) (body_images body) = (Inr post, db')"
    by (simp add: post_route_def BodyValidation_def)
  from createPost_fields[OF c] v
  show "length (content post) \<le> 240" "length (images post) \<le> 4"
    by (auto simp: validate_PostContentDTO_Nil_iff split: option.splits)
qed

theorem C9_post_route_limits_witness:
  "4 < length five_images
   \<and> post_route db0 gen0 s3_0 idA \<lparr>body_content = ''hola'', body_images = Some five_images\<rparr>
       = (Inl (ValidationException [(''images'', [''arrayMaxSize''])]), db0)
   \<and> post_route db0 gen0 s3_0 idA \<lparr>body_content = ''hola'', body_images = Some [''1.png'', ''2.png'']\<rparr>
       = (Inr \<lparr>post_id = idE, authorId = idA, content = ''hola'',
               images = [''https://bucket/1.png'', ''https://bucket/2.png''], createdAt = 1000\<rparr>,
          db0\<lparr>posts := [\<lparr>post_id = idE, authorId = idA, content = ''hola'',
               images = [''https://bucket/1.png'', ''https://bucket/2.png''],
               createdAt = 1000, parentPostId = None\<rparr>]\<rparr>)"
proof -
  have a: "4 < length five_images" by (simp add: five_images_def)
  have b: "post_route db0 gen0 s3_0 idA \<lparr>body_content = ''hola'', body_images = Some five_images\<rparr>
       = (Inl (ValidationException [(''images'', [''arrayMaxSize''])]), db0)" by code_simp
  have c: "post_route db0 gen0 s3_0 idA \<lparr>body_content = ''hola'', body_images = Some [''1.png'', ''2.png'']\<rparr>
       = (Inr \<lparr>post_id = idE, authorId = idA, content = ''hola'',
               images = [''https://bucket/1.png'', ''https://bucket/2.png''], createdAt = 1000\<rparr>,
          db0\<lparr>posts := [\<lparr>post_id = idE, authorId = idA, content = ''hola'',
               images = [''https://bucket/1.png'', ''https://bucket/2.png''],
               createdAt = 1000, parentPostId = None\<rparr>]\<rparr>)" by code_simp
  show ?thesis
    using C9_post_route_limits[of "\<lparr>body_content = ''hola'', body_images = Some five_images\<rparr>"
        db0 gen0 s3_0 idA] a b c
    by simp
qed

text \<open>
  C9 as stated fails for \<open>createPost\<close> itself, which builds a \<^verbatim>\<open>CreatePostDTO\<close> and
  never validates it: called with five image names, which the class's
  \<^verbatim>\<open>@ArrayMaxSize(4)\<close> forbids, it signs all five and stores a post with five image
  references.
\<close>

theorem C9_counterexample:
  "validate_CreatePostDTO idA ''hola'' (Some five_images) = [(''images'', [''arrayMaxSize''])]
   \<and> createPost db0 gen0 s3_0 idA ''hola'' (Some five_images) =
       (Inr \<lparr>post_id = idE, authorId = idA, content = ''hola'',
             images = [''https://bucket/1.png'', ''https://bucket/2.png'', ''https://bucket/3.png'',
                       ''https://bucket/4.png'', ''https://bucket/5.png''],
             createdAt = 1000\<rparr>,
        db0\<lparr>posts := [\<lparr>post_id = idE, authorId = idA, content = ''hola'',
             images = [''https://bucket/1.png'', ''https://bucket/2.png'', ''https://bucket/3.png'',
                       ''https://bucket/4.png'', ''https://bucket/5.png''],
             createdAt = 1000, parentPostId = None\<rparr>]\<rparr>)"
  by code_simp

subsection \<open>C10\<close>

text \<open>
  C10 (as amended). For every \<open>getComment\<close> call with well-formed UUID identifiers on an
  existing post whose \<open>parentPostId\<close> is null, the operation fails with
  \<open>NotFoundException\<close>, the lookup of the post being the only repository call made: the
  visibility resolver is not called. Whatever the arguments, a value returned by
  \<open>getComment\<close> has a \<open>parentPostId\<close>, so it is a comment.
\<close>

theorem C10_getComment_top_level_post:
  "(isUUID userId \<and> isUUID postId \<and> comment_getById db postId = Inr (Some p) \<and> parentPostId p = None
      \<longrightarrow> getComment db userId postId
            = ([Call_comment_getById postId], Inl (NotFoundException ''this is not a comment'')))
   \<and> (\<forall>c. snd (getComment db userId postId) = Inr c \<longrightarrow> parentPostId c \<noteq> None)"
  by (auto simp: getComment_def validate_pair_ok Let_def
      split: if_splits option.splits sum.splits bool.splits)

theorem C10_getComment_top_level_post_witness:
  "isUUID idD \<and> isUUID idP1 \<and> comment_getById db2 idP1 = Inr (Some (mkPost idP1 idA 50 None))
   \<and> parentPostId (mkPost idP1 idA 50 None) = None
   \<and> getComment db2 idD idP1
        = ([Call_comment_getById idP1], Inl (NotFoundException ''this is not a comment''))
   \<and> getComment db2 idD idP2
        = ([Call_comment_getById idP2, Call_isUserPublicOrFollowed idD idD],
           Inr (mkPost idP2 idD 100 (Some idP1)))"
proof -
  have g: "comment_getById db2 idP1 = Inr (Some (mkPost idP1 idA 50 None))" by code_simp
  have p: "parentPostId (mkPost idP1 idA 50 None) = None" by (simp add: mkPost_def)
  have c: "getComment db2 idD idP2
        = ([Call_comment_getById idP2, Call_isUserPublicOrFollowed idD idD],
           Inr (mkPost idP2 idD 100 (Some idP1)))" by code_simp
  show ?thesis
    using C10_getComment_top_level_post[of idD idP1 db2 "mkPost idP1 idA 50 None"]
      isUUID_idD isUUID_idP1 g p c
    by simp
qed

text \<open>
  C10 as stated fails for a viewer identifier that is not a UUID: the call on an existing
  top-level post is rejected by the validation, with a ValidationException and not a
  NotFound error.
\<close>

theorem C10_counterexample:
  "comment_getById db2 idP1 = Inr (Some (mkPost idP1 idA 50 None))
   \<and> parentPostId (mkPost idP1 idA 50 None) = None
   \<and> getComment db2 [] idP1
        = ([], Inl (ValidationException [(''userId'', [''isUuid'', ''isNotEmpty''])]))"
  by code_simp

end
